theory Spec2Isabelle
  imports Main
begin

section \<open>Python and numpy values\<close>

text \<open>
  The exceptions the detector can raise. None of them is caught in
  \<^verbatim>\<open>earthquake_detection.py\<close>, so each one ends the call that raised it.
\<close>

datatype error = IndexError | ValueError | TypeError | OverflowError

text \<open>
  The docstring of \<^verbatim>\<open>new_samples\<close> fixes the input: an ndarray of integer samples,
  here a one-dimensional array. Indexing such an array with one integer gives a numpy
  scalar, which is what \<^verbatim>\<open>peak_detect\<close> receives in its recursive call.
\<close>

datatype ndarray = Scalar int | Array "int list"

text \<open>\<^verbatim>\<open>samples.shape[0]\<close>: the shape of a scalar is the empty tuple.\<close>

fun shape0 :: "ndarray \<Rightarrow> error + nat" where
  "shape0 (Scalar v) = Inl IndexError"
| "shape0 (Array xs) = Inr (length xs)"

text \<open>\<^verbatim>\<open>samples[i]\<close> for a position \<open>i\<close> that is not negative.\<close>

fun getitem :: "ndarray \<Rightarrow> nat \<Rightarrow> error + int" where
  "getitem (Scalar v) i = Inl IndexError"
| "getitem (Array xs) i = (if i < length xs then Inr (xs ! i) else Inl IndexError)"

text \<open>\<^verbatim>\<open>r[0]\<close> where \<open>r\<close> is an integer index: an integer cannot be subscripted.\<close>

definition subscript0 :: "nat \<Rightarrow> error + nat" where
  "subscript0 r = Inl IndexError"

text \<open>
  A list comprehension whose element expression can raise: the elements are evaluated
  from left to right and the first exception ends the comprehension.
\<close>

fun list_comp :: "('a \<Rightarrow> error + 'b) \<Rightarrow> 'a list \<Rightarrow> error + 'b list" where
  "list_comp f [] = Inr []"
| "list_comp f (x # xs) =
     (case f x of
        Inl e \<Rightarrow> Inl e
      | Inr y \<Rightarrow> (case list_comp f xs of Inl e \<Rightarrow> Inl e | Inr ys \<Rightarrow> Inr (y # ys)))"

text \<open>\<^verbatim>\<open>max(peaks)\<close> raises ValueError on an empty list.\<close>

fun py_max :: "int list \<Rightarrow> error + int" where
  "py_max [] = Inl ValueError"
| "py_max (x # xs) = Inr (fold max xs x)"

text \<open>\<^verbatim>\<open>peaks.index(m)\<close>: the first position holding \<open>m\<close>, ValueError when there is none.\<close>

fun py_index :: "int list \<Rightarrow> int \<Rightarrow> error + nat" where
  "py_index [] m = Inl ValueError"
| "py_index (x # xs) m =
     (if x = m then Inr 0
      else (case py_index xs m of Inl e \<Rightarrow> Inl e | Inr k \<Rightarrow> Inr (Suc k)))"

text \<open>
  \<^verbatim>\<open>xs[i]\<close> on a Python list with any integer: a negative index counts from the end,
  and an index outside \<open>[-len, len)\<close> raises IndexError. \<open>norm_index\<close> is the position
  that is read or written.
\<close>

definition norm_index :: "'a list \<Rightarrow> int \<Rightarrow> error + nat" where
  "norm_index xs i =
     (let n = int (length xs); j = (if i < 0 then n + i else i)
      in if 0 \<le> j \<and> j < n then Inr (nat j) else Inl IndexError)"

definition list_getitem :: "'a list \<Rightarrow> int \<Rightarrow> error + 'a" where
  "list_getitem xs i = (case norm_index xs i of Inl e \<Rightarrow> Inl e | Inr j \<Rightarrow> Inr (xs ! j))"

definition list_setitem :: "'a list \<Rightarrow> int \<Rightarrow> 'a \<Rightarrow> error + 'a list" where
  "list_setitem xs i v = (case norm_index xs i of Inl e \<Rightarrow> Inl e | Inr j \<Rightarrow> Inr (xs[j := v]))"

text \<open>
  \<^verbatim>\<open>xs[start:]\<close>: a negative start counts from the end and is clipped at the first
  element, a start past the end gives the empty array. \<^verbatim>\<open>xs[-0:]\<close> is all of \<open>xs\<close>.
\<close>

definition slice_from :: "'a list \<Rightarrow> int \<Rightarrow> 'a list" where
  "slice_from xs start =
     (let n = int (length xs);
          k = (if start < 0 then max 0 (n + start) else min start n)
      in drop (nat k) xs)"

text \<open>
  The truth value of what a channel holds, as \<^verbatim>\<open>if self.seismographs[seismograph_id]:\<close>
  computes it: \<^verbatim>\<open>None\<close> is false, an array of one element has the truth value of
  that element, and an array of any other size has no truth value: numpy raises
  ValueError. (For the empty array this is numpy from version 2.2 on; earlier versions
  answered False with a deprecation warning.)
\<close>

fun truth :: "int list option \<Rightarrow> error + bool" where
  "truth None = Inr False"
| "truth (Some []) = Inl ValueError"
| "truth (Some [v]) = Inr (v \<noteq> 0)"
| "truth (Some (v # w # vs)) = Inl ValueError"

text \<open>
  \<^verbatim>\<open>np.concatenate(arrays, axis)\<close> joins the arrays of the sequence \<open>arrays\<close> along
  \<open>axis\<close>. The source calls it with the stored history as the sequence and the new
  batch as the axis. The elements of a one-dimensional history are scalars, which numpy
  refuses to concatenate, and a batch is not an axis: the call raises on every input
  (TypeError for the axis; ValueError for the scalars where the axis is accepted).
\<close>

definition np_concatenate :: "int list \<Rightarrow> int list \<Rightarrow> error + int list" where
  "np_concatenate arrays axis = Inl TypeError"

section \<open>The detector\<close>

text \<open>
  \<^verbatim>\<open>is_peak\<close> and \<^verbatim>\<open>alert_callback\<close> leave no mark on the fields of the detector, so the
  model keeps a trace of the calls made to them, in order.
\<close>

datatype call = Is_peak "int list option" int | Alert_callback

record detector =
  seismographs :: "int list option list"
  sample_rate :: int
  month_window_size :: int
  confirmed_peak_indices :: "int list"
  trace :: "call list"

text \<open>
  \<^verbatim>\<open>__init__\<close>; \<^verbatim>\<open>[None] * n\<close> is empty for \<open>n \<le> 0\<close>. The sample rate is an integer:
  the window size computed from it bounds a slice, and Python takes only integers there.
\<close>

definition init :: "int \<Rightarrow> int \<Rightarrow> detector" where
  "init seismograph_count sample_rate_hz =
     \<lparr> seismographs = replicate (nat seismograph_count) None,
       sample_rate = sample_rate_hz,
       month_window_size = 30 * 24 * 60 * 60 * sample_rate_hz,
       confirmed_peak_indices = [],
       trace = [] \<rparr>"

text \<open>
  \<^verbatim>\<open>scipy.signal.find_peaks_cwt(vector, widths)\<close> is not part of the repository: it is a
  parameter of the model, a function from the samples and the width to the positions of
  the peaks it finds, or to an exception.
\<close>

type_synonym cwt = "int list \<Rightarrow> int \<Rightarrow> error + nat list"

text \<open>The samples of a one-dimensional array, as handed to the library.\<close>

fun elems :: "ndarray \<Rightarrow> int list" where
  "elems (Scalar v) = [v]"
| "elems (Array xs) = xs"

lemma list_comp_cong [fundef_cong]:
  "xs = ys \<Longrightarrow> (\<And>x. x \<in> set ys \<Longrightarrow> f x = g x) \<Longrightarrow> list_comp f xs = list_comp g ys"
  by (induction ys arbitrary: xs) (auto split: sum.splits)

function peak_detect :: "cwt \<Rightarrow> int \<Rightarrow> ndarray \<Rightarrow> error + nat" where
  "peak_detect find_peaks_cwt rate samples =
     (case shape0 samples of
        Inl e \<Rightarrow> Inl e
      | Inr dim \<Rightarrow>
          (let hour = rate * 60 * 60 in
           case (if dim = 1 then find_peaks_cwt (elems samples) hour
                 else list_comp
                        (\<lambda>i. case getitem samples i of
                               Inl e \<Rightarrow> Inl e
                             | Inr v \<Rightarrow>
                                 (case peak_detect find_peaks_cwt rate (Scalar v) of
                                    Inl e \<Rightarrow> Inl e
                                  | Inr r \<Rightarrow> subscript0 r))
                        [0..<dim]) of
             Inl e \<Rightarrow> Inl e
           | Inr peak_inds \<Rightarrow>
               (case list_comp (getitem samples) peak_inds of
                  Inl e \<Rightarrow> Inl e
                | Inr peaks \<Rightarrow>
                    (case py_max peaks of
                       Inl e \<Rightarrow> Inl e
                     | Inr m \<Rightarrow>
                         (case py_index peaks m of
                            Inl e \<Rightarrow> Inl e
                          | Inr k \<Rightarrow> Inr (peak_inds ! k))))))"
  by pat_completeness auto
termination
proof (relation "measure (\<lambda>(f, r, a). case a of Scalar v \<Rightarrow> 0 | Array xs \<Rightarrow> Suc 0)")
  show "wf (measure (\<lambda>(f, r, a). case a of Scalar v \<Rightarrow> 0 | Array xs \<Rightarrow> Suc 0))"
    by simp
next
  fix find_peaks_cwt :: cwt and rate :: int and samples :: ndarray
    and dim :: nat and hour :: int and i :: nat and v :: int
  assume "shape0 samples = Inr dim"
  then show "((find_peaks_cwt, rate, Scalar v), (find_peaks_cwt, rate, samples))
      \<in> measure (\<lambda>(f, r, a). case a of Scalar v \<Rightarrow> 0 | Array xs \<Rightarrow> Suc 0)"
    by (cases samples) simp_all
qed

declare peak_detect.simps [simp del]

text \<open>\<^verbatim>\<open>is_peak\<close>: the body is \<^verbatim>\<open>return False\<close>.\<close>

definition is_peak :: "int list option \<Rightarrow> int \<Rightarrow> bool" where
  "is_peak seis peak_index = False"

text \<open>
  The loop of \<^verbatim>\<open>check_for_quake\<close> over \<^verbatim>\<open>self.seismographs\<close>: it starts from
  \<^verbatim>\<open>true_peak = True\<close> and leaves at the first channel that \<^verbatim>\<open>is_peak\<close> rejects. The
  second component is the trace with the calls to \<^verbatim>\<open>is_peak\<close> added.
\<close>

fun true_peak_loop :: "int list option list \<Rightarrow> int \<Rightarrow> call list \<Rightarrow> bool \<times> call list" where
  "true_peak_loop [] peak_index tr = (True, tr)"
| "true_peak_loop (seis # rest) peak_index tr =
     (if \<not> is_peak seis peak_index then (False, tr @ [Is_peak seis peak_index])
      else true_peak_loop rest peak_index (tr @ [Is_peak seis peak_index]))"

text \<open>
  The value of a numpy 64-bit integer after an addition: the sum wraps around.
\<close>

definition int64 :: "int \<Rightarrow> int" where
  "int64 x = (x + 2 ^ 63) mod 2 ^ 64 - 2 ^ 63"

text \<open>
  \<^verbatim>\<open>check_for_quake\<close>. The result pairs the outcome of the call (an exception or a normal
  return) with the detector as the call leaves it. In
  \<^verbatim>\<open>len(samples) - self.month_window_size + reverse_peak_index\<close> the difference is a
  Python integer and \<^verbatim>\<open>reverse_peak_index\<close> a numpy 64-bit integer: numpy raises
  OverflowError when the difference does not fit into 64 bits.
\<close>

definition check_for_quake :: "cwt \<Rightarrow> detector \<Rightarrow> int \<Rightarrow> (error + unit) \<times> detector" where
  "check_for_quake find_peaks_cwt s seismograph_id =
     (case list_getitem (seismographs s) seismograph_id of
        Inl e \<Rightarrow> (Inl e, s)
      | Inr None \<Rightarrow> (Inl TypeError, s)
      | Inr (Some history) \<Rightarrow>
          (let samples = slice_from history (- month_window_size s) in
           case peak_detect find_peaks_cwt (sample_rate s) (Array samples) of
             Inl e \<Rightarrow> (Inl e, s)
           | Inr reverse_peak_index \<Rightarrow>
               (let offset = int (length samples) - month_window_size s
                in if offset < - (2 ^ 63) \<or> 2 ^ 63 \<le> offset then (Inl OverflowError, s)
                   else
                     (let peak_index = int64 (offset + int reverse_peak_index)
                      in if peak_index \<notin> set (confirmed_peak_indices s) then
                           (case true_peak_loop (seismographs s) peak_index (trace s) of
                              (true_peak, tr) \<Rightarrow>
                                if true_peak then
                                  (Inr (),
                                   s\<lparr> confirmed_peak_indices :=
                                        confirmed_peak_indices s @ [peak_index],
                                      trace := tr @ [Alert_callback] \<rparr>)
                                else (Inr (), s\<lparr> trace := tr \<rparr>))
                         else (Inr (), s)))))"

text \<open>\<^verbatim>\<open>new_samples\<close>.\<close>

definition new_samples ::
  "cwt \<Rightarrow> detector \<Rightarrow> int \<Rightarrow> int list \<Rightarrow> (error + unit) \<times> detector" where
  "new_samples find_peaks_cwt s seismograph_id samples =
     (case list_getitem (seismographs s) seismograph_id of
        Inl e \<Rightarrow> (Inl e, s)
      | Inr stored \<Rightarrow>
          (case truth stored of
             Inl e \<Rightarrow> (Inl e, s)
           | Inr True \<Rightarrow>
               (case np_concatenate (case stored of None \<Rightarrow> [] | Some h \<Rightarrow> h) samples of
                  Inl e \<Rightarrow> (Inl e, s)
                | Inr joined \<Rightarrow>
                    (case list_setitem (seismographs s) seismograph_id (Some joined) of
                       Inl e \<Rightarrow> (Inl e, s)
                     | Inr chans \<Rightarrow>
                         check_for_quake find_peaks_cwt (s\<lparr> seismographs := chans \<rparr>)
                           seismograph_id))
           | Inr False \<Rightarrow>
               (case list_setitem (seismographs s) seismograph_id (Some samples) of
                  Inl e \<Rightarrow> (Inl e, s)
                | Inr chans \<Rightarrow>
                    check_for_quake find_peaks_cwt (s\<lparr> seismographs := chans \<rparr>)
                      seismograph_id)))"

text \<open>
  A caller making one ingestion call after the other on the same detector. An exception
  ends the call that raised it; the detector keeps what that call had already stored.
\<close>

fun ingest :: "cwt \<Rightarrow> detector \<Rightarrow> (int \<times> int list) list \<Rightarrow> detector" where
  "ingest find_peaks_cwt s [] = s"
| "ingest find_peaks_cwt s ((seismograph_id, samples) # rest) =
     ingest find_peaks_cwt (snd (new_samples find_peaks_cwt s seismograph_id samples)) rest"

text \<open>How often the alert sink has been invoked.\<close>

definition alerts :: "detector \<Rightarrow> nat" where
  "alerts s = length (filter (\<lambda>c. c = Alert_callback) (trace s))"

text \<open>
  A peak search that reports the fixed positions \<open>ps\<close> whatever the samples: the
  instance of the library parameter at which the model is evaluated on concrete inputs.
\<close>

definition cwt_at :: "nat list \<Rightarrow> cwt" where
  "cwt_at ps = (\<lambda>vector widths. Inr ps)"

section \<open>Peak detection\<close>

lemma peak_detect_Scalar: "peak_detect f rate (Scalar v) = Inl IndexError"
  by (simp add: peak_detect.simps)

lemma list_comp_first_raises:
  "xs \<noteq> [] \<Longrightarrow> f (hd xs) = Inl e \<Longrightarrow> list_comp f xs = Inl e"
  by (cases xs) simp_all

lemma peak_detect_two_or_more:
  "2 \<le> length xs \<Longrightarrow> peak_detect f rate (Array xs) = Inl IndexError"
proof -
  assume len: "2 \<le> length xs"
  let ?g = "\<lambda>i. case getitem (Array xs) i of
                  Inl e \<Rightarrow> Inl e
                | Inr v \<Rightarrow> (case peak_detect f rate (Scalar v) of
                             Inl e \<Rightarrow> Inl e
                           | Inr r \<Rightarrow> subscript0 r)"
  from len have ne: "[0..<length xs] \<noteq> []" by auto
  from len have "hd [0..<length xs] = 0" by (cases xs) (simp_all add: upt_rec)
  with len have "?g (hd [0..<length xs]) = Inl IndexError"
    by (simp add: peak_detect_Scalar)
  with ne have "list_comp ?g [0..<length xs] = Inl IndexError"
    by (rule list_comp_first_raises)
  with len show ?thesis
    by (subst peak_detect.simps) simp
qed

lemma peak_detect_empty: "peak_detect f rate (Array []) = Inl ValueError"
  by (simp add: peak_detect.simps)

lemma peak_detect_single:
  "peak_detect f rate (Array [v]) =
     (case f [v] (rate * 60 * 60) of
        Inl e \<Rightarrow> Inl e
      | Inr peak_inds \<Rightarrow>
         (case list_comp (getitem (Array [v])) peak_inds of
            Inl e \<Rightarrow> Inl e
          | Inr peaks \<Rightarrow>
             (case py_max peaks of
                Inl e \<Rightarrow> Inl e
              | Inr m \<Rightarrow>
                 (case py_index peaks m of
                    Inl e \<Rightarrow> Inl e
                  | Inr k \<Rightarrow> Inr (peak_inds ! k)))))"
  by (simp add: peak_detect.simps)

lemma list_comp_getitem_single:
  "list_comp (getitem (Array [v])) ps = Inr peaks \<Longrightarrow>
     length peaks = length ps \<and> (\<forall>p \<in> set ps. p = 0)"
  by (induction ps arbitrary: peaks) (auto split: sum.splits if_splits)

lemma py_index_bound: "py_index peaks m = Inr k \<Longrightarrow> k < length peaks"
  by (induction peaks arbitrary: k) (auto split: sum.splits if_splits)

text \<open>
  \<^verbatim>\<open>peak_detect\<close> returns only on a window of exactly one sample, and then it returns
  position 0: the empty window ends in \<^verbatim>\<open>max([])\<close>, a longer one in the recursive call
  on a scalar.
\<close>

lemma peak_detect_returns:
  assumes "peak_detect f rate (Array xs) = Inr r"
  shows "length xs = 1 \<and> r = 0"
proof -
  have "\<not> 2 \<le> length xs"
    using assms peak_detect_two_or_more [of xs f rate] by auto
  moreover have "0 < length xs"
    using assms peak_detect_empty [of f rate] by (cases xs) auto
  ultimately have "length xs = 1"
    by arith
  then obtain v where xs: "xs = [v]"
    by (cases xs) auto
  from assms obtain ps peaks m k where
    lc: "list_comp (getitem (Array [v])) ps = Inr peaks" and
    ix: "py_index peaks m = Inr k" and r: "r = ps ! k"
    by (auto simp: xs peak_detect_single split: sum.splits)
  from lc ix have "k < length ps" and "\<forall>p \<in> set ps. p = 0"
    using list_comp_getitem_single [OF lc] py_index_bound [OF ix] by auto
  with r have "r = 0" by auto
  with xs show ?thesis by simp
qed

text \<open>When the library reports no peak at all, \<^verbatim>\<open>peak_detect\<close> raises.\<close>

lemma peak_detect_no_peaks_raises:
  "f xs (rate * 60 * 60) = Inr [] \<Longrightarrow> \<exists>e. peak_detect f rate (Array xs) = Inl e"
proof -
  assume none: "f xs (rate * 60 * 60) = Inr []"
  show ?thesis
  proof (cases "peak_detect f rate (Array xs)")
    case (Inl e)
    then show ?thesis by blast
  next
    case (Inr r)
    then have "length xs = 1" by (simp add: peak_detect_returns)
    then obtain v where "xs = [v]" by (cases xs) auto
    with none Inr show ?thesis by (simp add: peak_detect_single)
  qed
qed




section \<open>The quake check and the ingestion call\<close>

lemma list_getitem_nonempty: "list_getitem xs i = Inr v \<Longrightarrow> xs \<noteq> []"
  by (auto simp: list_getitem_def norm_index_def Let_def split: if_splits)

lemma list_setitem_length: "list_setitem xs i v = Inr ys \<Longrightarrow> length ys = length xs"
  by (auto simp: list_setitem_def split: sum.splits)

lemma list_getitem_setitem:
  "list_setitem xs i v = Inr ys \<Longrightarrow> list_getitem ys i = Inr v"
  by (auto simp: list_setitem_def list_getitem_def norm_index_def Let_def split: if_splits)

lemma list_setitem_defined:
  "list_getitem xs i = Inr v \<Longrightarrow> \<exists>ys. list_setitem xs i w = Inr ys"
  by (auto simp: list_setitem_def list_getitem_def split: sum.splits)

text \<open>
  The loop visits the triggering channel too, and \<^verbatim>\<open>is_peak\<close> rejects the first channel
  it is asked about: over a detector with at least one channel the loop makes one call
  and answers False.
\<close>

lemma true_peak_loop_nonempty:
  "chans \<noteq> [] \<Longrightarrow> true_peak_loop chans p tr = (False, tr @ [Is_peak (hd chans) p])"
  by (cases chans) (simp_all add: is_peak_def)

text \<open>
  All that \<^verbatim>\<open>check_for_quake\<close> can do to the detector: nothing, or one call to
  \<^verbatim>\<open>is_peak\<close> on the first channel.
\<close>

lemma check_for_quake_cases:
  assumes "check_for_quake f s i = (r, s')"
  shows "s' = s \<or>
         (\<exists>p. r = Inr () \<and> s' = s\<lparr> trace := trace s @ [Is_peak (hd (seismographs s)) p] \<rparr>)"
proof (cases "list_getitem (seismographs s) i")
  case (Inl e)
  with assms show ?thesis by (simp add: check_for_quake_def)
next
  case (Inr stored)
  then have ne: "seismographs s \<noteq> []" by (rule list_getitem_nonempty)
  show ?thesis
    using assms Inr true_peak_loop_nonempty [OF ne]
    by (auto simp: check_for_quake_def Let_def split: option.splits sum.splits if_splits)
qed

lemma check_for_quake_alerts: "alerts (snd (check_for_quake f s i)) = alerts s"
  using check_for_quake_cases [of f s i "fst (check_for_quake f s i)" "snd (check_for_quake f s i)"]
  by (auto simp: alerts_def)

lemma check_for_quake_confirmed:
  "confirmed_peak_indices (snd (check_for_quake f s i)) = confirmed_peak_indices s"
  using check_for_quake_cases [of f s i "fst (check_for_quake f s i)" "snd (check_for_quake f s i)"]
  by auto

lemma check_for_quake_seismographs:
  "seismographs (snd (check_for_quake f s i)) = seismographs s"
  using check_for_quake_cases [of f s i "fst (check_for_quake f s i)" "snd (check_for_quake f s i)"]
  by auto

lemma alerts_seismographs_update [simp]: "alerts (s\<lparr> seismographs := c \<rparr>) = alerts s"
  by (simp add: alerts_def)

lemma new_samples_alerts: "alerts (snd (new_samples f s i b)) = alerts s"
  by (auto simp: new_samples_def check_for_quake_alerts np_concatenate_def
      split: sum.splits bool.splits)

lemma new_samples_confirmed:
  "confirmed_peak_indices (snd (new_samples f s i b)) = confirmed_peak_indices s"
  by (auto simp: new_samples_def check_for_quake_confirmed np_concatenate_def
      split: sum.splits bool.splits)

lemma new_samples_length:
  "length (seismographs (snd (new_samples f s i b))) = length (seismographs s)"
  by (auto simp: new_samples_def check_for_quake_seismographs np_concatenate_def
      list_setitem_length split: sum.splits bool.splits)

lemma ingest_alerts: "alerts (ingest f s calls) = alerts s"
  by (induction calls arbitrary: s) (auto simp: new_samples_alerts)

lemma ingest_confirmed:
  "confirmed_peak_indices (ingest f s calls) = confirmed_peak_indices s"
  by (induction calls arbitrary: s) (auto simp: new_samples_confirmed)

lemma ingest_length:
  "length (seismographs (ingest f s calls)) = length (seismographs s)"
  by (induction calls arbitrary: s) (auto simp: new_samples_length)



text \<open>The detectors the concrete runs below start from.\<close>

lemma init_1_1:
  "init 1 1 = \<lparr> seismographs = [None], sample_rate = 1, month_window_size = 2592000,
       confirmed_peak_indices = [], trace = [] \<rparr>"
  by (simp add: init_def)


lemmas run = new_samples_def check_for_quake_def list_getitem_def list_setitem_def
  norm_index_def slice_from_def Let_def

section \<open>The claims\<close>

text \<open>
  Claim C1: a detector with two or more channels, fed the same pulse at the same absolute
  time on every channel, invokes the alert sink exactly once, with the index of the pulse.

  The code does not: on the scenario of the specification (three channels at 1 Hz, ten
  samples per channel, a pulse of height 10 at index 5) the first ingestion call already
  raises IndexError in \<^verbatim>\<open>peak_detect\<close>, whatever the library's peak search does, and
  after the three calls the alert sink has not been invoked and no index is confirmed.
\<close>

theorem shared_pulse_raises_no_alert:
  "fst (new_samples f (init 3 1) 0 [0, 0, 0, 0, 5, 10, 5, 0, 0, 0]) = Inl IndexError \<and>
   alerts (ingest f (init 3 1)
     [(0, [0, 0, 0, 0, 5, 10, 5, 0, 0, 0]),
      (1, [0, 0, 0, 0, 5, 10, 5, 0, 0, 0]),
      (2, [0, 0, 0, 0, 5, 10, 5, 0, 0, 0])]) = 0 \<and>
   confirmed_peak_indices (ingest f (init 3 1)
     [(0, [0, 0, 0, 0, 5, 10, 5, 0, 0, 0]),
      (1, [0, 0, 0, 0, 5, 10, 5, 0, 0, 0]),
      (2, [0, 0, 0, 0, 5, 10, 5, 0, 0, 0])]) = []"
  by (simp add: ingest_alerts ingest_confirmed)
     (simp add: init_def alerts_def run peak_detect_two_or_more)

text \<open>
  Claim C2: for a detector built with at least one channel and every sequence of
  ingestion calls, the alert sink is never invoked and no peak index is ever confirmed:
  \<^verbatim>\<open>is_peak\<close> answers False for every channel, the triggering one included, so the loop
  over the channels always ends with \<^verbatim>\<open>true_peak = False\<close>.
\<close>

theorem alert_never_invoked:
  "1 \<le> seismograph_count \<Longrightarrow>
     alerts (ingest f (init seismograph_count rate) calls) = 0 \<and>
     confirmed_peak_indices (ingest f (init seismograph_count rate) calls) = [] \<and>
     \<not> is_peak seis p \<and>
     \<not> fst (true_peak_loop (seismographs (ingest f (init seismograph_count rate) calls)) p tr)"
proof -
  assume n: "1 \<le> seismograph_count"
  let ?s = "ingest f (init seismograph_count rate) calls"
  have "length (seismographs ?s) = nat seismograph_count"
    by (simp add: ingest_length init_def)
  with n have "seismographs ?s \<noteq> []" by auto
  then have "\<not> fst (true_peak_loop (seismographs ?s) p tr)"
    by (simp add: true_peak_loop_nonempty)
  then show ?thesis
    by (simp add: ingest_alerts ingest_confirmed is_peak_def) (simp add: init_def alerts_def)
qed

theorem alert_never_invoked_witness:
  "(1::int) \<le> 2 \<and>
   alerts (ingest (cwt_at [0]) (init 2 1) [(0, [7]), (1, [0, 5, 10, 5, 0])]) = 0 \<and>
   confirmed_peak_indices (ingest (cwt_at [0]) (init 2 1) [(0, [7]), (1, [0, 5, 10, 5, 0])]) = [] \<and>
   \<not> is_peak (Some [7]) 0 \<and>
   \<not> fst (true_peak_loop
           (seismographs (ingest (cwt_at [0]) (init 2 1) [(0, [7]), (1, [0, 5, 10, 5, 0])])) 0 [])"
  using alert_never_invoked [of 2 "cwt_at [0]" 1 "[(0, [7]), (1, [0, 5, 10, 5, 0])]" "Some [7]" 0 "[]"]
  by simp

text \<open>
  Claim C3: on a channel that already has a non-empty history, \<^verbatim>\<open>new_samples\<close> extends
  the history by the new batch.

  The code does not. A channel that holds \<open>[1, 2]\<close> (stored by a first call) keeps
  \<open>[1, 2]\<close> when the batch \<open>[3]\<close> arrives: the truth test of an array of two elements
  raises ValueError. A channel that holds \<open>[5]\<close> passes the truth test and fails in
  \<^verbatim>\<open>np.concatenate\<close>; a channel that holds \<open>[0]\<close> counts as empty and its history is
  replaced by the batch.
\<close>

theorem second_batch_not_appended:
  "seismographs (snd (new_samples f (init 1 1) 0 [1, 2])) = [Some [1, 2]] \<and>
   new_samples f (snd (new_samples f (init 1 1) 0 [1, 2])) 0 [3] =
     (Inl ValueError, snd (new_samples f (init 1 1) 0 [1, 2])) \<and>
   fst (new_samples f ((init 1 1)\<lparr> seismographs := [Some [5]] \<rparr>) 0 [3]) = Inl TypeError \<and>
   seismographs (snd (new_samples f ((init 1 1)\<lparr> seismographs := [Some [0]] \<rparr>) 0 [3, 4])) =
     [Some [3, 4]]"
  by (simp add: init_1_1 run peak_detect_two_or_more np_concatenate_def)

text \<open>
  For no channel with a non-empty history and no non-empty batch is the history
  afterwards the old one followed by the batch.
\<close>

lemma history_never_extended:
  assumes "list_getitem (seismographs s) i = Inr (Some h)" and "h \<noteq> []" and "samples \<noteq> []"
  shows "list_getitem (seismographs (snd (new_samples f s i samples))) i \<noteq> Inr (Some (h @ samples))"
proof (cases "truth (Some h)")
  case (Inl e)
  with assms show ?thesis by (simp add: new_samples_def)
next
  case (Inr b)
  show ?thesis
  proof (cases b)
    case True
    with Inr assms show ?thesis by (simp add: new_samples_def np_concatenate_def)
  next
    case False
    from list_setitem_defined [OF assms(1), where w = "Some samples"]
    obtain chans where c: "list_setitem (seismographs s) i (Some samples) = Inr chans"
      by blast
    with False Inr assms(1) have "seismographs (snd (new_samples f s i samples)) = chans"
      by (simp add: new_samples_def check_for_quake_seismographs)
    with c assms(2) show ?thesis by (simp add: list_getitem_setitem)
  qed
qed

text \<open>
  Claim C4: for every one-dimensional array of two or more samples \<^verbatim>\<open>peak_detect\<close> does
  not return a peak index: \<^verbatim>\<open>dim\<close> is the length of the array, so the array takes the
  recursive branch, whose first call is on a scalar and raises IndexError. Hence
  \<^verbatim>\<open>check_for_quake\<close> raises on every window of two or more samples, and leaves the
  detector as it found it.
\<close>

theorem peak_detect_fails_on_two_or_more:
  "2 \<le> length xs \<Longrightarrow>
     peak_detect f rate (Array xs) = Inl IndexError \<and>
     (list_getitem (seismographs s) i = Inr (Some history) \<longrightarrow>
      slice_from history (- month_window_size s) = xs \<longrightarrow>
      check_for_quake f s i = (Inl IndexError, s))"
  by (simp add: peak_detect_two_or_more check_for_quake_def)

theorem peak_detect_fails_on_two_or_more_witness:
  "2 \<le> length [1, 2 :: int] \<and>
   list_getitem (seismographs ((init 1 1)\<lparr> seismographs := [Some [1, 2]] \<rparr>)) 0 =
     Inr (Some [1, 2]) \<and>
   slice_from [1, 2 :: int] (- month_window_size ((init 1 1)\<lparr> seismographs := [Some [1, 2]] \<rparr>)) =
     [1, 2] \<and>
   peak_detect (cwt_at [0]) 1 (Array [1, 2]) = Inl IndexError \<and>
   check_for_quake (cwt_at [0]) ((init 1 1)\<lparr> seismographs := [Some [1, 2]] \<rparr>) 0 =
     (Inl IndexError, (init 1 1)\<lparr> seismographs := [Some [1, 2]] \<rparr>)"
  using peak_detect_fails_on_two_or_more [of "[1, 2]" "cwt_at [0]" 1
      "(init 1 1)\<lparr> seismographs := [Some [1, 2]] \<rparr>" 0 "[1, 2]"]
  by (simp add: init_1_1 list_getitem_def norm_index_def slice_from_def)







text \<open>
  Claim C8: on a window in which nothing rises above the noise, the peak search returns
  "no peak" and the check ends normally.

  The code has no such result: \<^verbatim>\<open>peak_detect\<close> raises. The empty window and the window
  of one sample in which the library finds no peak end in \<^verbatim>\<open>max([])\<close>, a ValueError; a
  flat window of three samples ends in the IndexError of the recursive branch. The
  exception leaves \<^verbatim>\<open>check_for_quake\<close> and \<^verbatim>\<open>new_samples\<close> uncaught.
\<close>

theorem no_peak_raises:
  "peak_detect f rate (Array []) = Inl ValueError \<and>
   peak_detect (cwt_at []) rate (Array [0]) = Inl ValueError \<and>
   peak_detect f rate (Array [0, 0, 0]) = Inl IndexError \<and>
   new_samples f (init 1 1) 0 [] = (Inl ValueError, (init 1 1)\<lparr> seismographs := [Some []] \<rparr>)"
  by (simp add: init_1_1 run peak_detect_empty peak_detect_single peak_detect_two_or_more
      cwt_at_def)

text \<open>
  Claim C9: an ingestion call on a channel with no history, or with fewer samples than a
  minimum window, ends without an exception before any channel is asked for
  corroboration, and without an alert.

  The code has no minimum window and the call does not end without an exception. On a
  fresh detector the first batch \<open>[1, 2]\<close> is stored and the quake check raises
  IndexError in \<^verbatim>\<open>peak_detect\<close>, whatever the library does; the first batch \<open>[7]\<close> is
  stored and the check raises ValueError at \<^verbatim>\<open>max(peaks)\<close> when the library finds
  nothing in one sample.
\<close>

theorem first_batch_raises:
  "list_getitem (seismographs (init 1 1)) 0 = Inr None \<and>
   new_samples f (init 1 1) 0 [1, 2] =
     (Inl IndexError, (init 1 1)\<lparr> seismographs := [Some [1, 2]] \<rparr>) \<and>
   new_samples (cwt_at []) (init 1 1) 0 [7] =
     (Inl ValueError, (init 1 1)\<lparr> seismographs := [Some [7]] \<rparr>)"
  by (simp add: init_1_1 run peak_detect_two_or_more peak_detect_single cwt_at_def)

end
